theory Spec2Isabelle
  imports Complex_Main "HOL-Library.Sublist"
begin

section \<open>SentimentScope: the sentiment scoring pipeline of \<^verbatim>\<open>ml_utils/sentiment_analyzer.py\<close>\<close>

subsection \<open>Data model\<close>

text \<open>
  A Python \<^verbatim>\<open>str\<close> is a sequence of Unicode code points, so a text is a list of
  code points. Probabilities and confidences are Python floats; they are modelled as
  reals, which is exact for the comparisons and constants the code uses on them.
\<close>

type_synonym ustring = "nat list"

abbreviation (input) ustr :: "string \<Rightarrow> ustring" where
  "ustr s \<equiv> map of_char s"

datatype error =
    TierError
  | IndexError
  | AttributeError
  | TranslationError
  | LoadError

datatype sentiment = Negative | Neutral | Positive

datatype model_tag = NoModel | Transformer | Baseline | VADER_fallback

record scores =
  negative :: real
  neutral :: real
  positive :: real

record sentiment_result =
  sentiment :: sentiment
  confidence :: real
  scores :: scores
  model_used :: model_tag

text \<open>\<^verbatim>\<open>self.sentiment_labels = ['Negative', 'Neutral', 'Positive']\<close>\<close>

definition sentiment_labels :: "sentiment list" where
  "sentiment_labels = [Negative, Neutral, Positive]"

type_synonym encoding = "nat list"
type_synonym features = "nat list"

text \<open>
  The neural tier is a tokenizer and a model. The tokenizer turns a text into the
  model's input (truncated and padded by the library); the model returns row 0 of
  \<^verbatim>\<open>softmax(outputs.logits)\<close>. Either call may raise.
\<close>

type_synonym tokenizer_obj = "ustring \<Rightarrow> error + encoding"
type_synonym model_obj = "encoding \<Rightarrow> error + real list"
type_synonym vectorizer_obj = "ustring \<Rightarrow> error + features"

record baseline_obj =
  predict :: "features \<Rightarrow> error + nat"
  predict_proba :: "features \<Rightarrow> error + real list"

record polarity =
  neg :: real
  neu :: real
  pos :: real
  compound :: real

type_synonym vader_obj = "ustring \<Rightarrow> error + polarity"

subsection \<open>The three tiers\<close>

definition analyze_transformer ::
    "tokenizer_obj \<Rightarrow> model_obj \<Rightarrow> ustring \<Rightarrow> error + sentiment_result" where
  "analyze_transformer tok mdl text =
    (case tok text of
       Inl e \<Rightarrow> Inl e
     | Inr inputs \<Rightarrow>
        (case mdl inputs of
           Inl e \<Rightarrow> Inl e
         | Inr probs \<Rightarrow>
            if length probs < 3 then Inl IndexError
            else
              let neg_score = probs ! 0;
                  neu_score = probs ! 1;
                  pos_score = probs ! 2;
                  total_polarized_score = neg_score + pos_score;
                  (final_sentiment_idx, final_confidence) =
                    (if total_polarized_score > 0 then
                       (if pos_score > neg_score then (2, pos_score)
                        else (0, neg_score))
                     else (0, 0.5))
              in Inr \<lparr> sentiment = sentiment_labels ! final_sentiment_idx,
                       confidence = final_confidence,
                       scores = \<lparr> negative = neg_score, neutral = 0.0,
                                  positive = pos_score \<rparr>,
                       model_used = Transformer \<rparr>))"

definition analyze_baseline ::
    "vectorizer_obj \<Rightarrow> baseline_obj \<Rightarrow> ustring \<Rightarrow> error + sentiment_result" where
  "analyze_baseline vec bm text =
    (case vec text of
       Inl e \<Rightarrow> Inl e
     | Inr X \<Rightarrow>
        (case predict bm X of
           Inl e \<Rightarrow> Inl e
         | Inr pred \<Rightarrow>
            (case predict_proba bm X of
               Inl e \<Rightarrow> Inl e
             | Inr proba \<Rightarrow>
                if length proba < 3 then Inl IndexError
                else
                  let neg_score = proba ! 0;
                      neu_score = proba ! 1;
                      pos_score = proba ! 2;
                      total_polarized_score = neg_score + pos_score;
                      (final_sentiment_idx, final_confidence) =
                        (if total_polarized_score > 0 then
                           (if pos_score > neg_score then (2, pos_score)
                            else (0, neg_score))
                         else (0, 0.5))
                  in Inr \<lparr> sentiment = sentiment_labels ! final_sentiment_idx,
                           confidence = final_confidence,
                           scores = \<lparr> negative = neg_score, neutral = 0.0,
                                      positive = pos_score \<rparr>,
                           model_used = Baseline \<rparr>)))"

definition analyze_vader :: "vader_obj \<Rightarrow> ustring \<Rightarrow> error + sentiment_result" where
  "analyze_vader vader text =
    (case vader text of
       Inl e \<Rightarrow> Inl e
     | Inr sc \<Rightarrow>
        let (label, conf) =
              (if compound sc \<ge> 0.05 then (Positive, pos sc)
               else if compound sc \<le> - 0.05 then (Negative, neg sc)
               else (Neutral, neu sc))
        in Inr \<lparr> sentiment = label, confidence = conf,
                 scores = \<lparr> negative = neg sc, neutral = neu sc,
                            positive = pos sc \<rparr>,
                 model_used = VADER_fallback \<rparr>)"

subsection \<open>Strings: whitespace, case, regular expressions\<close>

text \<open>
  What Python takes from outside this repository is a parameter: the lower-case
  mapping of a non-ASCII character (\<^verbatim>\<open>str.lower\<close>, given the string and the index,
  since the mapping of a final sigma depends on its context), whether a non-ASCII
  character is alphanumeric (the \<^verbatim>\<open>\w\<close> of \<^verbatim>\<open>re\<close>), and
  \<^verbatim>\<open>emoji.demojize(text, delimiters=(' ', ' '))\<close>. On ASCII characters
  \<^verbatim>\<open>str.lower\<close> and \<^verbatim>\<open>\w\<close> are written out.
\<close>

record platform =
  lower_full :: "ustring \<Rightarrow> nat \<Rightarrow> ustring"
  isalnum_u :: "nat \<Rightarrow> bool"
  demojize :: "ustring \<Rightarrow> ustring"

text \<open>
  \<^verbatim>\<open>str.isspace\<close>, which is also the \<^verbatim>\<open>\s\<close> of a \<^verbatim>\<open>str\<close> pattern and the
  separator of \<^verbatim>\<open>str.split()\<close> and \<^verbatim>\<open>str.strip()\<close>: the code points
  U+0009..000D, U+001C..0020, U+0085, U+00A0, U+1680, U+2000..200A, U+2028, U+2029,
  U+202F, U+205F, U+3000.
\<close>

definition is_space :: "nat \<Rightarrow> bool" where
  "is_space c \<longleftrightarrow>
     (9 \<le> c \<and> c \<le> 13) \<or> (28 \<le> c \<and> c \<le> 32) \<or> c = 133 \<or> c = 160 \<or> c = 5760 \<or>
     (8192 \<le> c \<and> c \<le> 8202) \<or> c = 8232 \<or> c = 8233 \<or> c = 8239 \<or> c = 8287 \<or>
     c = 12288"

abbreviation (input) non_space :: "nat \<Rightarrow> bool" where
  "non_space c \<equiv> \<not> is_space c"

definition is_upper :: "nat \<Rightarrow> bool" where
  "is_upper c \<longleftrightarrow> 65 \<le> c \<and> c \<le> 90"

definition is_lower :: "nat \<Rightarrow> bool" where
  "is_lower c \<longleftrightarrow> 97 \<le> c \<and> c \<le> 122"

definition is_digit :: "nat \<Rightarrow> bool" where
  "is_digit c \<longleftrightarrow> 48 \<le> c \<and> c \<le> 57"

definition isascii :: "ustring \<Rightarrow> bool" where
  "isascii s \<longleftrightarrow> list_all (\<lambda>c. c < 128) s"

definition ascii_lower :: "nat \<Rightarrow> nat" where
  "ascii_lower c = (if is_upper c then c + 32 else c)"

definition lower :: "platform \<Rightarrow> ustring \<Rightarrow> ustring" where
  "lower P s =
     concat (map (\<lambda>i. if s ! i < 128 then [ascii_lower (s ! i)] else lower_full P s i)
                 [0..<length s])"

text \<open>\<^verbatim>\<open>\w\<close>: an alphanumeric character or the underscore.\<close>

definition is_word :: "platform \<Rightarrow> nat \<Rightarrow> bool" where
  "is_word P c \<longleftrightarrow>
     (if c < 128 then is_upper c \<or> is_lower c \<or> is_digit c \<or> c = 95 else isalnum_u P c)"

definition strip :: "ustring \<Rightarrow> ustring" where
  "strip s = rev (dropWhile is_space (rev (dropWhile is_space s)))"

function split :: "ustring \<Rightarrow> ustring list" where
  "split s =
     (case dropWhile is_space s of
        [] \<Rightarrow> []
      | c # cs \<Rightarrow> (c # takeWhile non_space cs) # split (dropWhile non_space cs))"
  by pat_completeness auto
termination
proof (relation "measure length", goal_cases)
  case 1
  show ?case by simp
next
  case (2 s c cs)
  have "length (dropWhile non_space cs) \<le> length cs"
    by (rule length_dropWhile_le)
  moreover have "length (dropWhile is_space s) \<le> length s"
    by (rule length_dropWhile_le)
  ultimately show ?case using 2 by simp
qed

fun join :: "ustring \<Rightarrow> ustring list \<Rightarrow> ustring" where
  "join sep [] = []"
| "join sep [w] = w"
| "join sep (w # v # ws) = w @ sep @ join sep (v # ws)"

text \<open>
  \<^verbatim>\<open>re.sub(r'http\S+|www\S+', '', text)\<close>. The pattern matches at a position when the
  text there starts with \<^verbatim>\<open>http\<close> (or \<^verbatim>\<open>www\<close>) and one more non-space character;
  the match is greedy and runs to the end of the non-space characters; the scan goes on
  after the match.
\<close>

definition url_at :: "ustring \<Rightarrow> nat option" where
  "url_at s =
     (if take 4 s = ustr ''http'' \<and> 4 < length s \<and> non_space (s ! 4) then Some 4
      else if take 3 s = ustr ''www'' \<and> 3 < length s \<and> non_space (s ! 3) then Some 3
      else None)"

function sub_urls :: "ustring \<Rightarrow> ustring" where
  "sub_urls [] = []"
| "sub_urls (c # cs) =
     (case url_at (c # cs) of
        Some k \<Rightarrow> sub_urls (dropWhile non_space (drop k (c # cs)))
      | None \<Rightarrow> c # sub_urls cs)"
  by pat_completeness auto
termination
proof (relation "measure length", goal_cases)
  case 1
  show ?case by simp
next
  case 2
  show ?case by simp
next
  case (3 c cs k)
  have "length (dropWhile non_space (drop k (c # cs))) \<le> length (drop k (c # cs))"
    by (rule length_dropWhile_le)
  moreover have "0 < k" using 3 by (auto simp: url_at_def split: if_splits)
  ultimately show ?case by simp
qed

fun has_url :: "ustring \<Rightarrow> bool" where
  "has_url [] = False"
| "has_url (c # cs) = (url_at (c # cs) \<noteq> None \<or> has_url cs)"

text \<open>\<^verbatim>\<open>re.sub(r'@\w+', '', text)\<close>, in the same way.\<close>

definition mention_at :: "platform \<Rightarrow> ustring \<Rightarrow> bool" where
  "mention_at P s \<longleftrightarrow> take 1 s = ustr ''@'' \<and> 1 < length s \<and> is_word P (s ! 1)"

function sub_mentions :: "platform \<Rightarrow> ustring \<Rightarrow> ustring" where
  "sub_mentions P [] = []"
| "sub_mentions P (c # cs) =
     (if mention_at P (c # cs) then sub_mentions P (dropWhile (is_word P) cs)
      else c # sub_mentions P cs)"
  by pat_completeness auto
termination
proof (relation "measure (\<lambda>(P, s). length s)", goal_cases)
  case 1
  show ?case by simp
next
  case (2 P c cs)
  have "length (dropWhile (is_word P) cs) \<le> length cs"
    by (rule length_dropWhile_le)
  then show ?case by simp
next
  case 3
  show ?case by simp
qed

fun has_mention :: "platform \<Rightarrow> ustring \<Rightarrow> bool" where
  "has_mention P [] = False"
| "has_mention P (c # cs) = (mention_at P (c # cs) \<or> has_mention P cs)"

text \<open>\<^verbatim>\<open>re.sub(r'[^a-zA-Z0-9\s!?.,]', '', text)\<close> keeps the characters of the class.\<close>

definition kept :: "nat \<Rightarrow> bool" where
  "kept c \<longleftrightarrow>
     is_lower c \<or> is_upper c \<or> is_digit c \<or> is_space c \<or>
     c = of_char CHR ''!'' \<or> c = of_char CHR ''?'' \<or> c = of_char CHR ''.'' \<or>
     c = of_char CHR '',''"

definition sub_unsupported :: "ustring \<Rightarrow> ustring" where
  "sub_unsupported s = filter kept s"

text \<open>\<^verbatim>\<open>re.sub(r'\s+', ' ', text)\<close>: every maximal run of whitespace becomes one space.\<close>

function sub_spaces :: "ustring \<Rightarrow> ustring" where
  "sub_spaces [] = []"
| "sub_spaces (c # cs) =
     (if is_space c then 32 # sub_spaces (dropWhile is_space cs)
      else c # sub_spaces cs)"
  by pat_completeness auto
termination
proof (relation "measure length", goal_cases)
  case 1
  show ?case by simp
next
  case (2 c cs)
  have "length (dropWhile is_space cs) \<le> length cs"
    by (rule length_dropWhile_le)
  then show ?case by simp
next
  case 3
  show ?case by simp
qed

subsection \<open>The text normalizer\<close>

definition SENTIMENT_FLIPS :: "(ustring \<times> ustring) list" where
  "SENTIMENT_FLIPS =
    [(ustr ''underrated'', ustr ''amazing''),
     (ustr ''underdog'', ustr ''winner''),
     (ustr ''goat'', ustr ''best''),
     (ustr ''banger'', ustr ''amazing song''),
     (ustr ''dope'', ustr ''amazing''),
     (ustr ''sick'', ustr ''amazing''),
     (ustr ''fire'', ustr ''amazing''),
     (ustr ''lit'', ustr ''amazing''),
     (ustr ''beast'', ustr ''amazing''),
     (ustr ''slaps'', ustr ''amazing''),
     (ustr ''addicted'', ustr ''loving'')]"

text \<open>\<^verbatim>\<open>SENTIMENT_FLIPS.get(word, word)\<close>\<close>

definition flip :: "ustring \<Rightarrow> ustring" where
  "flip word = (case map_of SENTIMENT_FLIPS word of None \<Rightarrow> word | Some v \<Rightarrow> v)"

text \<open>
  A value a caller can pass where the annotation says \<^verbatim>\<open>str\<close>: Python does not
  check the annotation, and \<^verbatim>\<open>clean_text\<close> tests the type itself.
\<close>

datatype pyval = PStr ustring | PNone | PInt int | PList "pyval list"

fun truthy :: "pyval \<Rightarrow> bool" where
  "truthy (PStr s) = (s \<noteq> [])"
| "truthy PNone = False"
| "truthy (PInt i) = (i \<noteq> 0)"
| "truthy (PList xs) = (xs \<noteq> [])"

definition clean_str :: "platform \<Rightarrow> ustring \<Rightarrow> ustring" where
  "clean_str P text0 =
     (let text1 = lower P text0;
          text2 = sub_urls text1;
          text3 = sub_mentions P text2;
          text4 = demojize P text3;
          words = split text4;
          normalized_words = map flip words;
          text5 = join (ustr '' '') normalized_words;
          text6 = sub_unsupported text5
      in strip (sub_spaces text6))"

definition clean_text :: "platform \<Rightarrow> pyval \<Rightarrow> ustring" where
  "clean_text P text =
     (case text of
        PStr s \<Rightarrow> if strip s = [] then [] else clean_str P s
      | _ \<Rightarrow> [])"

subsection \<open>The analyzer and its calls\<close>

text \<open>
  The fields of \<^verbatim>\<open>SentimentAnalyzer\<close>; a field that is \<^verbatim>\<open>None\<close> is \<open>None\<close>. The
  translator is the external service: it returns a text or raises.
\<close>

record analyzer =
  model :: "model_obj option"
  tokenizer :: "tokenizer_obj option"
  baseline_model :: "baseline_obj option"
  baseline_vectorizer :: "vectorizer_obj option"
  vader_analyzer :: "vader_obj option"
  translator :: "ustring \<Rightarrow> error + ustring"

text \<open>
  The calls a request makes to its collaborators are recorded, in order, so that
  "no tier is invoked" and "the next tier is attempted on the same input" are
  properties of the result.
\<close>

datatype event = Translate ustring | Attempt model_tag ustring

definition translate_if_needed :: "analyzer \<Rightarrow> ustring \<Rightarrow> event list \<times> ustring" where
  "translate_if_needed A text =
     (if text = [] \<or> strip text = [] then ([], text)
      else if isascii text then ([], text)
      else (case translator A text of
              Inr translated \<Rightarrow> ([Translate text], translated)
            | Inl e \<Rightarrow> ([Translate text], text)))"

definition neutral_default :: sentiment_result where
  "neutral_default =
     \<lparr> sentiment = Neutral, confidence = 0.33,
       scores = \<lparr> negative = 0.33, neutral = 0.34, positive = 0.33 \<rparr>,
       model_used = NoModel \<rparr>"

text \<open>
  \<^verbatim>\<open>analyze\<close>. A tier that is not attempted is \<open>None\<close>; an attempted tier gives its
  result or the exception that the \<^verbatim>\<open>try\<close> around it catches. The only exception
  that leaves the function is the \<^verbatim>\<open>AttributeError\<close> of \<^verbatim>\<open>text.strip()\<close> on a
  truthy value that is not a string.
\<close>

definition analyze ::
    "platform \<Rightarrow> analyzer \<Rightarrow> pyval \<Rightarrow> bool \<Rightarrow> event list \<times> (error + sentiment_result)" where
  "analyze P A text use_transformer =
    (if \<not> truthy text then ([], Inr neutral_default)
     else
      (case text of
         PStr s \<Rightarrow>
          if strip s = [] then ([], Inr neutral_default)
          else
            let (ev0, translated_text) = translate_if_needed A s;
                cleaned_text = clean_text P (PStr translated_text)
            in
            if cleaned_text = [] then (ev0, Inr neutral_default)
            else
              let t1 = (case (use_transformer, model A, tokenizer A) of
                          (True, Some m, Some t) \<Rightarrow>
                            Some (analyze_transformer t m cleaned_text)
                        | _ \<Rightarrow> None);
                  ev1 = ev0 @ (if t1 = None then []
                               else [Attempt Transformer cleaned_text])
              in
              (case t1 of
                 Some (Inr r) \<Rightarrow> (ev1, Inr r)
               | _ \<Rightarrow>
                  let t2 = (case (baseline_model A, baseline_vectorizer A) of
                              (Some bm, Some bv) \<Rightarrow>
                                Some (analyze_baseline bv bm cleaned_text)
                            | _ \<Rightarrow> None);
                      ev2 = ev1 @ (if t2 = None then []
                                   else [Attempt Baseline cleaned_text])
                  in
                  (case t2 of
                     Some (Inr r) \<Rightarrow> (ev2, Inr r)
                   | _ \<Rightarrow>
                      let t3 = (case vader_analyzer A of
                                  Some v \<Rightarrow> Some (analyze_vader v cleaned_text)
                                | None \<Rightarrow> None);
                          ev3 = ev2 @ (if t3 = None then []
                                       else [Attempt VADER_fallback cleaned_text])
                      in
                      (case t3 of
                         Some (Inr r) \<Rightarrow> (ev3, Inr r)
                       | _ \<Rightarrow> (ev3, Inr neutral_default))))
       | _ \<Rightarrow> ([], Inl AttributeError)))"

subsection \<open>Word frequencies\<close>

definition stop_words :: "ustring list" where
  "stop_words = map ustr
     [''the'', ''a'', ''an'', ''and'', ''or'', ''but'', ''in'', ''on'', ''at'', ''to'',
      ''for'', ''of'', ''with'', ''is'', ''was'', ''are'', ''were'', ''been'', ''be'',
      ''have'', ''has'', ''had'', ''do'', ''does'', ''did'', ''will'', ''would'',
      ''should'', ''could'', ''may'', ''might'', ''can'', ''this'', ''that'', ''these'',
      ''those'', ''i'', ''you'', ''he'', ''she'', ''it'', ''we'', ''they'', ''my'',
      ''your'', ''his'', ''her'', ''its'', ''our'', ''their'']"

text \<open>
  \<^verbatim>\<open>Counter(words)\<close> is a dictionary in insertion order: a word enters at its first
  occurrence and later occurrences raise its count in place.
\<close>

fun bump :: "'a \<Rightarrow> ('a \<times> nat) list \<Rightarrow> ('a \<times> nat) list" where
  "bump w [] = [(w, 1)]"
| "bump w ((k, n) # kvs) = (if k = w then (k, n + 1) # kvs else (k, n) # bump w kvs)"

definition Counter :: "'a list \<Rightarrow> ('a \<times> nat) list" where
  "Counter ws = foldl (\<lambda>acc w. bump w acc) [] ws"

text \<open>
  \<^verbatim>\<open>most_common(n)\<close> is \<^verbatim>\<open>heapq.nlargest(n, items, key=itemgetter(1))\<close>, which the
  library documents as \<^verbatim>\<open>sorted(items, key=..., reverse=True)[:n]\<close>: a stable sort
  by descending count. \<^verbatim>\<open>dict(...)\<close> of the pairs keeps their order.
\<close>

definition most_common :: "nat \<Rightarrow> ('a \<times> nat) list \<Rightarrow> ('a \<times> nat) list" where
  "most_common n counts = take n (sort_key (\<lambda>(w, c). - int c) counts)"

definition filtered_words :: "platform \<Rightarrow> pyval list \<Rightarrow> ustring list" where
  "filtered_words P texts =
     (let all_text = join (ustr '' '') (map (clean_text P) texts);
          words = split all_text
      in filter (\<lambda>w. w \<notin> set stop_words \<and> length w > 2) words)"

definition get_word_frequencies :: "platform \<Rightarrow> pyval list \<Rightarrow> (ustring \<times> nat) list" where
  "get_word_frequencies P texts =
     (let word_counts = Counter (filtered_words P texts)
      in most_common 50 word_counts)"

subsection \<open>Start-up\<close>









subsection \<open>Concrete collaborators for running the model\<close>

text \<open>
  A platform for ASCII texts, where no parameter is consulted: non-ASCII characters
  are left as they are and no emoji is known.
\<close>

definition ascii_platform :: platform where
  "ascii_platform =
     \<lparr> lower_full = (\<lambda>s i. [s ! i]), isalnum_u = (\<lambda>c. False), demojize = (\<lambda>s. s) \<rparr>"

text \<open>Tiers that answer with fixed probabilities or scores, and tiers that raise.\<close>

definition fixed_tokenizer :: tokenizer_obj where
  "fixed_tokenizer = (\<lambda>text. Inr [101, 102])"

definition fixed_model :: "real list \<Rightarrow> model_obj" where
  "fixed_model probs = (\<lambda>inputs. Inr probs)"

definition fixed_vectorizer :: vectorizer_obj where
  "fixed_vectorizer = (\<lambda>text. Inr [1])"

definition fixed_baseline :: "real list \<Rightarrow> baseline_obj" where
  "fixed_baseline proba = \<lparr> predict = (\<lambda>X. Inr 2), predict_proba = (\<lambda>X. Inr proba) \<rparr>"

definition fixed_vader :: "polarity \<Rightarrow> vader_obj" where
  "fixed_vader sc = (\<lambda>text. Inr sc)"



definition failing_translator :: "ustring \<Rightarrow> error + ustring" where
  "failing_translator = (\<lambda>text. Inl TranslationError)"

text \<open>An analyzer with every tier loaded, and one with none.\<close>

definition full_analyzer :: analyzer where
  "full_analyzer =
     \<lparr> model = Some (fixed_model [0.3, 0.9, 0.7]), tokenizer = Some fixed_tokenizer,
       baseline_model = Some (fixed_baseline [0.6, 0.1, 0.3]),
       baseline_vectorizer = Some fixed_vectorizer,
       vader_analyzer =
         Some (fixed_vader \<lparr> neg = 0.0, neu = 1.0, pos = 0.0, compound = 0.0 \<rparr>),
       translator = failing_translator \<rparr>"





fun is_attempt :: "event \<Rightarrow> bool" where
  "is_attempt (Attempt tag text) = True"
| "is_attempt (Translate text) = False"


subsection \<open>The three guarded calls of \<^verbatim>\<open>analyze\<close>\<close>




fun returned :: "(error + sentiment_result) option \<Rightarrow> bool" where
  "returned (Some (Inr r)) = True"
| "returned _ = False"


section \<open>Properties\<close>

subsection \<open>The two-class collapse\<close>

lemma sentiment_labels_nth:
  "sentiment_labels ! 0 = Negative" "sentiment_labels ! 2 = Positive"
  by (simp_all add: sentiment_labels_def)

text \<open>
  Claim C1. In the neural and the classical tier, with class probabilities
  (neg, neu, pos): when pos + neg > 0 the result is Positive with confidence pos if
  pos > neg, and Negative with confidence neg otherwise (a tie gives Negative); when
  pos + neg = 0 it is Negative with confidence 0.5; the returned neutral score is
  always 0.0 and the label is never Neutral.
\<close>

theorem two_class_collapse:
  fixes n u p :: real
  assumes "tok txt = Inr inputs" and "mdl inputs = Inr [n, u, p]"
    and "vec txt = Inr X" and "predict bm X = Inr lbl"
    and "predict_proba bm X = Inr [n, u, p]"
  shows "\<exists>rt rb.
      analyze_transformer tok mdl txt = Inr rt \<and>
      analyze_baseline vec bm txt = Inr rb \<and>
      model_used rt = Transformer \<and> model_used rb = Baseline \<and>
      sentiment rt = sentiment rb \<and> confidence rt = confidence rb \<and>
      scores rt = scores rb \<and>
      (p + n > 0 \<and> p > n \<longrightarrow> sentiment rt = Positive \<and> confidence rt = p) \<and>
      (p + n > 0 \<and> \<not> p > n \<longrightarrow> sentiment rt = Negative \<and> confidence rt = n) \<and>
      (p + n = 0 \<longrightarrow> sentiment rt = Negative \<and> confidence rt = 0.5) \<and>
      scores rt = \<lparr> negative = n, neutral = 0, positive = p \<rparr> \<and>
      sentiment rt \<noteq> Neutral"
  using assms
  by (simp add: analyze_transformer_def analyze_baseline_def sentiment_labels_nth)

theorem two_class_collapse_witness:
  "analyze_transformer fixed_tokenizer (fixed_model [0.3, 0.9, 0.7]) (ustr ''good'') =
     Inr \<lparr> sentiment = Positive, confidence = 0.7,
           scores = \<lparr> negative = 0.3, neutral = 0, positive = 0.7 \<rparr>,
           model_used = Transformer \<rparr> \<and>
   analyze_baseline fixed_vectorizer (fixed_baseline [0.3, 0.9, 0.7]) (ustr ''good'') =
     Inr \<lparr> sentiment = Positive, confidence = 0.7,
           scores = \<lparr> negative = 0.3, neutral = 0, positive = 0.7 \<rparr>,
           model_used = Baseline \<rparr>"
proof -
  have "\<exists>rt rb.
      analyze_transformer fixed_tokenizer (fixed_model [0.3, 0.9, 0.7]) (ustr ''good'') = Inr rt \<and>
      analyze_baseline fixed_vectorizer (fixed_baseline [0.3, 0.9, 0.7]) (ustr ''good'') = Inr rb \<and>
      model_used rt = Transformer \<and> model_used rb = Baseline \<and>
      sentiment rt = sentiment rb \<and> confidence rt = confidence rb \<and>
      scores rt = scores rb \<and>
      ((0.7::real) + 0.3 > 0 \<and> (0.7::real) > 0.3 \<longrightarrow> sentiment rt = Positive \<and> confidence rt = 0.7) \<and>
      ((0.7::real) + 0.3 > 0 \<and> \<not> (0.7::real) > 0.3 \<longrightarrow> sentiment rt = Negative \<and> confidence rt = 0.3) \<and>
      ((0.7::real) + 0.3 = 0 \<longrightarrow> sentiment rt = Negative \<and> confidence rt = 0.5) \<and>
      scores rt = \<lparr> negative = 0.3, neutral = 0, positive = 0.7 \<rparr> \<and>
      sentiment rt \<noteq> Neutral"
    by (rule two_class_collapse [where inputs = "[101, 102]" and X = "[1]" and lbl = 2
          and u = "0.9"])
       (simp_all add: fixed_tokenizer_def fixed_model_def fixed_vectorizer_def
          fixed_baseline_def)
  then obtain rt rb where
      t: "analyze_transformer fixed_tokenizer (fixed_model [0.3, 0.9, 0.7]) (ustr ''good'') = Inr rt"
    and b: "analyze_baseline fixed_vectorizer (fixed_baseline [0.3, 0.9, 0.7]) (ustr ''good'') = Inr rb"
    and m: "model_used rt = Transformer" "model_used rb = Baseline"
    and e: "sentiment rt = sentiment rb" "confidence rt = confidence rb" "scores rt = scores rb"
    and s: "sentiment rt = Positive" "confidence rt = 0.7"
    and sc: "scores rt = \<lparr> negative = 0.3, neutral = 0, positive = 0.7 \<rparr>"
    by auto
  have "rt = \<lparr> sentiment = Positive, confidence = 0.7,
           scores = \<lparr> negative = 0.3, neutral = 0, positive = 0.7 \<rparr>,
           model_used = Transformer \<rparr>"
    using m s sc by (cases rt) simp
  moreover have "rb = \<lparr> sentiment = Positive, confidence = 0.7,
           scores = \<lparr> negative = 0.3, neutral = 0, positive = 0.7 \<rparr>,
           model_used = Baseline \<rparr>"
    using m e s sc by (cases rb) simp
  ultimately show ?thesis using t b by simp
qed

subsection \<open>The lexicon tier\<close>

text \<open>
  The claim C4 as stated, that a compound score above 0.05 gives Positive, one below
  -0.05 gives Negative and every other score gives Neutral, fails at the threshold
  itself: a compound score of exactly 0.05 is not above the threshold, and the tier
  answers Positive.
\<close>

theorem lexicon_boundary_counterexample:
  "analyze_vader (fixed_vader \<lparr> neg = 0.0, neu = 0.8, pos = 0.2, compound = 0.05 \<rparr>) (ustr ''fine'') =
     Inr \<lparr> sentiment = Positive, confidence = 0.2,
           scores = \<lparr> negative = 0.0, neutral = 0.8, positive = 0.2 \<rparr>,
           model_used = VADER_fallback \<rparr> \<and>
   \<not> compound \<lparr> neg = 0.0, neu = 0.8, pos = 0.2, compound = 0.05 \<rparr> > 0.05"
  by (simp add: analyze_vader_def fixed_vader_def)

text \<open>
  Claim C4, amended. When the lexicon tier handles a text, a compound score at or
  above 0.05 gives Positive with the pos sub-score as confidence, one at or below
  -0.05 gives Negative with the neg sub-score, and a score strictly between gives
  Neutral with the neu sub-score; the three sub-scores are returned as they are and
  the result is tagged VADER-fallback.
\<close>

theorem lexicon_thresholds:
  assumes "vader txt = Inr sc"
  shows "\<exists>r. analyze_vader vader txt = Inr r \<and>
      model_used r = VADER_fallback \<and>
      scores r = \<lparr> negative = neg sc, neutral = neu sc, positive = pos sc \<rparr> \<and>
      (compound sc \<ge> 0.05 \<longrightarrow> sentiment r = Positive \<and> confidence r = pos sc) \<and>
      (compound sc \<le> - 0.05 \<longrightarrow> sentiment r = Negative \<and> confidence r = neg sc) \<and>
      (- 0.05 < compound sc \<and> compound sc < 0.05 \<longrightarrow>
         sentiment r = Neutral \<and> confidence r = neu sc)"
  using assms by (simp add: analyze_vader_def)

theorem lexicon_thresholds_witness:
  "analyze_vader (fixed_vader \<lparr> neg = 0.1, neu = 0.9, pos = 0.0, compound = 0.0 \<rparr>) (ustr ''table'') =
     Inr \<lparr> sentiment = Neutral, confidence = 0.9,
           scores = \<lparr> negative = 0.1, neutral = 0.9, positive = 0.0 \<rparr>,
           model_used = VADER_fallback \<rparr>"
proof -
  let ?sc = "\<lparr> neg = 0.1, neu = 0.9, pos = 0.0, compound = 0.0 \<rparr> :: polarity"
  have "fixed_vader ?sc (ustr ''table'') = Inr ?sc"
    by (simp add: fixed_vader_def)
  from lexicon_thresholds [of "fixed_vader ?sc" "ustr ''table''" ?sc, OF this]
  obtain r where r: "analyze_vader (fixed_vader ?sc) (ustr ''table'') = Inr r"
    and "model_used r = VADER_fallback"
    and "scores r = \<lparr> negative = 0.1, neutral = 0.9, positive = 0.0 \<rparr>"
    and "sentiment r = Neutral" "confidence r = 0.9"
    by auto
  then have "r = \<lparr> sentiment = Neutral, confidence = 0.9,
           scores = \<lparr> negative = 0.1, neutral = 0.9, positive = 0.0 \<rparr>,
           model_used = VADER_fallback \<rparr>"
    by (cases r) simp
  with r show ?thesis by simp
qed

subsection \<open>The language bridge\<close>

text \<open>
  Claim C9. \<^verbatim>\<open>translate_if_needed\<close> returns an empty, a whitespace-only or a pure
  ASCII input unchanged and makes no translation call; for any other input, when the
  translation call fails the original text is returned, and nothing is raised.
\<close>

theorem translate_if_needed_unchanged:
  "(text = [] \<or> strip text = [] \<or> isascii text \<longrightarrow>
      translate_if_needed A text = ([], text)) \<and>
   (translator A text = Inl e \<longrightarrow> snd (translate_if_needed A text) = text) \<and>
   (\<not> (text = [] \<or> strip text = [] \<or> isascii text) \<and> translator A text = Inl e \<longrightarrow>
      translate_if_needed A text = ([Translate text], text))"
  by (simp add: translate_if_needed_def)

theorem translate_if_needed_unchanged_witness:
  "translate_if_needed full_analyzer (ustr ''good day'') = ([], ustr ''good day'') \<and>
   translate_if_needed full_analyzer [32, 160] = ([], [32, 160]) \<and>
   translate_if_needed full_analyzer [99, 97, 102, 233] =
     ([Translate [99, 97, 102, 233]], [99, 97, 102, 233])"
proof -
  have a: "isascii (ustr ''good day'')" by (simp add: isascii_def)
  have b: "strip [32, 160] = []" by (simp add: strip_def is_space_def)
  have c: "\<not> ([99, 97, 102, 233] = [] \<or> strip [99, 97, 102, 233] = [] \<or>
              isascii [99, 97, 102, 233])"
    by (simp add: strip_def is_space_def isascii_def)
  have d: "translator full_analyzer [99, 97, 102, 233] = Inl TranslationError"
    by (simp add: full_analyzer_def failing_translator_def)
  show ?thesis
    using translate_if_needed_unchanged [of "ustr ''good day''" full_analyzer TranslationError]
      translate_if_needed_unchanged [of "[32, 160]" full_analyzer TranslationError]
      translate_if_needed_unchanged [of "[99, 97, 102, 233]" full_analyzer TranslationError]
      a b c d
    by blast
qed

subsection \<open>Inputs that are not strings\<close>




subsection \<open>Running the normalizer on a given text\<close>

lemmas run_text = clean_text_def clean_str_def strip_def ascii_platform_def
  lower_def is_space_def ascii_lower_def is_upper_def url_at_def sub_unsupported_def
  kept_def is_lower_def is_digit_def flip_def SENTIMENT_FLIPS_def mention_at_def
  is_word_def isascii_def translate_if_needed_def

subsection \<open>The degenerate default\<close>

lemma no_attempt_translate: "list_all (\<lambda>e. \<not> is_attempt e) (fst (translate_if_needed A s))"
  by (simp add: translate_if_needed_def split: sum.splits)

lemma translate_ascii: "isascii s \<Longrightarrow> translate_if_needed A s = ([], s)"
  by (simp add: translate_if_needed_def)

text \<open>
  Claim C2. For an input that is empty or whitespace-only, and for an input whose
  normalized form is empty, \<^verbatim>\<open>analyze\<close> returns Neutral with confidence 0.33, the
  scores 0.33, 0.34, 0.33 and the tag None, and attempts no tier, whatever tiers the
  analyzer has. The normalized form is the one the pipeline computes, the cleaned
  translation; for an ASCII input, which is not translated, it is the cleaned input.
\<close>

theorem analyze_empty_default:
  assumes "s = [] \<or> strip s = [] \<or>
           clean_text P (PStr (snd (translate_if_needed A s))) = [] \<or>
           (isascii s \<and> clean_text P (PStr s) = [])"
  shows "snd (analyze P A (PStr s) use_transformer) =
           Inr \<lparr> sentiment = Neutral, confidence = 0.33,
                 scores = \<lparr> negative = 0.33, neutral = 0.34, positive = 0.33 \<rparr>,
                 model_used = NoModel \<rparr> \<and>
         list_all (\<lambda>e. \<not> is_attempt e) (fst (analyze P A (PStr s) use_transformer))"
proof -
  consider (blank) "s = [] \<or> strip s = []"
    | (clean) "s \<noteq> []" "strip s \<noteq> []"
        "clean_text P (PStr (snd (translate_if_needed A s))) = []"
    using assms translate_ascii [of s A] by fastforce
  then show ?thesis
  proof cases
    case blank
    then show ?thesis
      by (auto simp: analyze_def neutral_default_def)
  next
    case clean
    then show ?thesis
      using no_attempt_translate [of A s]
      by (simp add: analyze_def neutral_default_def split_beta)
  qed
qed

theorem analyze_empty_default_witness:
  "snd (analyze ascii_platform full_analyzer (PStr (ustr ''@ @@'')) True) =
           Inr \<lparr> sentiment = Neutral, confidence = 0.33,
                 scores = \<lparr> negative = 0.33, neutral = 0.34, positive = 0.33 \<rparr>,
                 model_used = NoModel \<rparr> \<and>
   list_all (\<lambda>e. \<not> is_attempt e)
     (fst (analyze ascii_platform full_analyzer (PStr (ustr ''@ @@'')) True)) \<and>
   snd (analyze ascii_platform full_analyzer (PStr (ustr ''  '')) True) =
           Inr \<lparr> sentiment = Neutral, confidence = 0.33,
                 scores = \<lparr> negative = 0.33, neutral = 0.34, positive = 0.33 \<rparr>,
                 model_used = NoModel \<rparr>"
proof -
  have a: "isascii (ustr ''@ @@'') \<and> clean_text ascii_platform (PStr (ustr ''@ @@'')) = []"
    by (simp add: run_text)
  have b: "strip (ustr ''  '') = []"
    by (simp add: strip_def is_space_def)
  show ?thesis
    using analyze_empty_default [of "ustr ''@ @@''" ascii_platform full_analyzer True]
      analyze_empty_default [of "ustr ''  ''" ascii_platform full_analyzer True] a b
    by blast
qed

subsection \<open>The cascade\<close>

lemma returned_cases:
  "returned t \<Longrightarrow> \<exists>r. t = Some (Inr r)"
  by (cases t rule: returned.cases) simp_all





subsection \<open>Loading the tiers\<close>










end
